theory Spec2Isabelle
  imports Complex_Main
begin

section \<open>The weather dashboard script\<close>

text \<open>
  The repository is one script, \<^verbatim>\<open>weather.py\<close>: a memoized fetch of hourly
  temperatures (\<^verbatim>\<open>get_weather_data\<close>) and, in the right-hand column of the page,
  the shaping of the response into a labelled series with three headline metrics.
  The script calls into pandas, pytz, requests and Streamlit; what those calls do is
  written out here as far as the script depends on it.
\<close>

subsection \<open>Values\<close>

text \<open>
  A temperature after \<^verbatim>\<open>pd.to_numeric(..., errors='coerce')\<close> is a float: a number
  or not-a-number. Only the order of the numbers is used by the script, so a number is a
  real here.
\<close>

datatype temp = NaN | Num real

text \<open>
  A cell of the provider's \<^verbatim>\<open>temperature_2m\<close> array is a JSON scalar: a number (or a
  boolean, or text that reads as a number), \<^verbatim>\<open>null\<close>, or text that does not read as
  a number. Cells that are themselves arrays or objects are not represented.
\<close>

datatype temp_cell = JNum real | JNull | JUnparseable

text \<open>
  A cell of the provider's \<^verbatim>\<open>time\<close> array is a JSON scalar, represented by what
  \<^verbatim>\<open>pd.to_datetime\<close> makes of it in its column: a timezone-naive wall-clock time
  (counted in seconds), a time that carries a UTC offset and so is timezone-aware (the
  instant, in seconds), not-a-time for \<^verbatim>\<open>null\<close> and the empty string, or a parse
  failure.
\<close>

datatype time_cell = TimeStr int | TimeOffset int | TimeNull | TimeBad

text \<open>An entry of a datetime column before it is localized.\<close>

datatype stamp = Naive int | Aware int | NaT

text \<open>
  The \<^verbatim>\<open>hourly\<close> member of the response, an object of arrays; an array that is
  absent is \<open>None\<close>.
\<close>

record hourly_data =
  h_time :: "time_cell list option"
  h_temperature_2m :: "temp_cell list option"

text \<open>
  A JSON object as response: its \<^verbatim>\<open>timezone\<close> member, a string, and its
  \<^verbatim>\<open>hourly\<close> member; a member that is absent is \<open>None\<close>.
\<close>

record weather_data =
  wd_timezone :: "string option"
  wd_hourly :: "hourly_data option"

text \<open>
  What \<^verbatim>\<open>response.json()\<close> can return besides \<^verbatim>\<open>None\<close>: an object, a number, a
  boolean, a string, or an array. Of an array only its elements that are strings matter
  to the script (\<open>None\<close> stands for an element of another kind).
\<close>

datatype json_body =
    JObject weather_data
  | JNumber real
  | JBool bool
  | JString string
  | JArray "string option list"

text \<open>
  A pytz timezone, as far as \<^verbatim>\<open>tz_localize\<close> uses it: it maps a wall-clock time to
  the instant it denotes, and has no answer for a wall-clock time that is ambiguous or
  does not exist in the zone (pandas raises there).
\<close>

type_synonym tzinfo = "int \<Rightarrow> int option"

datatype py_error =
    KeyError string
  | ValueError
  | TypeError
  | IndexError
  | ParserError
  | UnknownTimeZoneError
  | AmbiguousOrNonExistentTimeError

datatype request_exception = ConnectionError | Timeout | HTTPError nat | JSONDecodeError

datatype ui_event =
    St_error string request_exception
  | St_warning string
  | St_metric string string

text \<open>
  A row of the frame after line 150. Its time is an instant, or \<open>None\<close> for
  not-a-time.
\<close>

record row =
  time :: "int option"
  temperature_2m :: temp
  Type :: string

record shaped =
  df :: "row list"
  current_time :: int
  current_temp :: temp
  max_temp :: temp
  min_temp :: temp

datatype run = Crashed py_error | Unavailable | Shaped shaped

subsection \<open>The fetcher\<close>

text \<open>
  What one outbound call gives: \<^verbatim>\<open>requests.get\<close> raises, or a response with a status
  code and a body arrives. The body is not JSON, is the JSON value \<^verbatim>\<open>null\<close>, or is
  another JSON value.
\<close>

datatype payload = NotJSON | JSONNull | JSON json_body

datatype http = Raises request_exception | Response nat payload

type_synonym coords = "real \<times> real"

text \<open>
  The network is a parameter: the answer to the \<open>n\<close>-th outbound call of the process
  for given coordinates.
\<close>

type_synonym network = "nat \<Rightarrow> coords \<Rightarrow> http"

text \<open>
  The body of \<^verbatim>\<open>get_weather_data\<close>, lines 41 to 48. \<^verbatim>\<open>raise_for_status\<close> raises
  for the codes 400 to 599; every exception raised in the \<^verbatim>\<open>try\<close> block is a
  \<^verbatim>\<open>RequestException\<close> and is answered by \<^verbatim>\<open>st.error\<close> and \<^verbatim>\<open>return None\<close>.
  The result \<open>None\<close> is Python's \<^verbatim>\<open>None\<close>, which a \<^verbatim>\<open>null\<close> body gives as well.
\<close>

definition fetch_message :: string where
  "fetch_message = ''Error fetching data: ''"

definition get_weather_data_body :: "http \<Rightarrow> ui_event list \<times> json_body option" where
  "get_weather_data_body h =
     (case h of
        Raises e \<Rightarrow> ([St_error fetch_message e], None)
      | Response code body \<Rightarrow>
          if 400 \<le> code \<and> code < 600 then ([St_error fetch_message (HTTPError code)], None)
          else (case body of
                  NotJSON \<Rightarrow> ([St_error fetch_message JSONDecodeError], None)
                | JSONNull \<Rightarrow> ([], None)
                | JSON data \<Rightarrow> ([], Some data)))"

text \<open>
  The process: the memoization table of \<^verbatim>\<open>@st.cache_data\<close> and the log of outbound
  calls. The decorator keys the table by the arguments, stores whatever the function
  returns together with the elements it drew, and has no expiry and no size bound here.
\<close>

record process =
  cache :: "coords \<rightharpoonup> ui_event list \<times> json_body option"
  calls :: "coords list"

definition get_weather_data ::
  "network \<Rightarrow> coords \<Rightarrow> process \<Rightarrow> (ui_event list \<times> json_body option) \<times> process" where
  "get_weather_data net k s =
     (case cache s k of
        Some r \<Rightarrow> (r, s)
      | None \<Rightarrow>
          let r = get_weather_data_body (net (length (calls s)) k)
          in (r, s\<lparr>cache := (cache s)(k \<mapsto> r), calls := calls s @ [k]\<rparr>))"

text \<open>A run of fetches, one after the other, in one process.\<close>

fun fetch_all :: "network \<Rightarrow> coords list \<Rightarrow> process \<Rightarrow> process" where
  "fetch_all net [] s = s"
| "fetch_all net (k # ks) s = fetch_all net ks (snd (get_weather_data net k s))"

subsection \<open>The shaper\<close>

text \<open>Python's \<^verbatim>\<open>in\<close> on strings: the first string occurs in the second.\<close>

fun starts_with :: "string \<Rightarrow> string \<Rightarrow> bool" where
  "starts_with [] ys = True"
| "starts_with (x # xs) [] = False"
| "starts_with (x # xs) (y # ys) = (x = y \<and> starts_with xs ys)"

fun str_contains :: "string \<Rightarrow> string \<Rightarrow> bool" where
  "str_contains xs [] = (xs = [])"
| "str_contains xs (y # ys) = (starts_with xs (y # ys) \<or> str_contains xs ys)"

definition to_numeric :: "temp_cell \<Rightarrow> temp" where
  "to_numeric c = (case c of JNum x \<Rightarrow> Num x | JNull \<Rightarrow> NaN | JUnparseable \<Rightarrow> NaN)"

text \<open>
  \<^verbatim>\<open>pd.to_datetime\<close> on a column: a cell that does not parse raises, and so does a
  column that mixes naive and aware times. (Which exception a mixed column raises
  differs between pandas versions; that one is raised is what matters below.)
\<close>

definition is_Naive :: "stamp \<Rightarrow> bool" where
  "is_Naive x = (case x of Naive _ \<Rightarrow> True | _ \<Rightarrow> False)"

definition is_Aware :: "stamp \<Rightarrow> bool" where
  "is_Aware x = (case x of Aware _ \<Rightarrow> True | _ \<Rightarrow> False)"

definition parse_cell :: "time_cell \<Rightarrow> stamp" where
  "parse_cell c =
     (case c of TimeStr t \<Rightarrow> Naive t | TimeOffset t \<Rightarrow> Aware t | TimeNull \<Rightarrow> NaT | TimeBad \<Rightarrow> NaT)"

definition to_datetime :: "time_cell list \<Rightarrow> py_error + stamp list" where
  "to_datetime cells =
     (if TimeBad \<in> set cells then Inl ParserError
      else let col = map parse_cell cells
           in if list_ex is_Naive col \<and> list_ex is_Aware col then Inl ValueError
              else Inr col)"

text \<open>
  \<^verbatim>\<open>.dt.tz_localize(tz)\<close>: a column that is already timezone-aware raises
  \<^verbatim>\<open>TypeError\<close>; a naive time is mapped by the zone, or raises where the zone has no
  answer; not-a-time stays.
\<close>

fun tz_localize :: "tzinfo \<Rightarrow> stamp list \<Rightarrow> py_error + int option list" where
  "tz_localize tz [] = Inr []"
| "tz_localize tz (Aware t # ts) = Inl TypeError"
| "tz_localize tz (NaT # ts) =
     (case tz_localize tz ts of Inl e \<Rightarrow> Inl e | Inr us \<Rightarrow> Inr (None # us))"
| "tz_localize tz (Naive t # ts) =
     (case tz t of
        None \<Rightarrow> Inl AmbiguousOrNonExistentTimeError
      | Some u \<Rightarrow> (case tz_localize tz ts of Inl e \<Rightarrow> Inl e | Inr us \<Rightarrow> Inr (Some u # us)))"

text \<open>The zone \<^verbatim>\<open>'UTC'\<close>: a wall-clock time is the instant itself.\<close>

definition UTC :: tzinfo where
  "UTC t = Some t"

text \<open>
  \<^verbatim>\<open>pd.DataFrame(hourly_data)\<close>: the columns must have one length.
\<close>

definition DataFrame :: "hourly_data \<Rightarrow> py_error + unit" where
  "DataFrame h =
     (case (h_time h, h_temperature_2m h) of
        (Some ts, Some cs) \<Rightarrow> if length ts = length cs then Inr () else Inl ValueError
      | _ \<Rightarrow> Inr ())"

text \<open>
  Lines 142 to 144, the \<^verbatim>\<open>try\<close> block: the localized column and the boundary, or
  the exception raised. \<open>timezone\<close> is pytz's lookup (\<open>None\<close>: the name is unknown)
  and \<open>now\<close> the instant the clock gives.
\<close>

definition localize_try ::
  "(string \<Rightarrow> tzinfo option) \<Rightarrow> int \<Rightarrow> string \<Rightarrow> time_cell list option
     \<Rightarrow> py_error + (int option list \<times> int)" where
  "localize_try timezone now api_timezone_str col =
     (case timezone api_timezone_str of
        None \<Rightarrow> Inl UnknownTimeZoneError
      | Some tz \<Rightarrow>
          (case col of
             None \<Rightarrow> Inl (KeyError ''time'')
           | Some cells \<Rightarrow>
               (case to_datetime cells of
                  Inl e \<Rightarrow> Inl e
                | Inr parsed \<Rightarrow>
                    (case tz_localize tz parsed of
                       Inl e \<Rightarrow> Inl e
                     | Inr ts \<Rightarrow> Inr (ts, now)))))"

text \<open>
  Lines 147 and 148, after the warning of the \<^verbatim>\<open>except\<close> block: the column is
  parsed again and localized to UTC. An exception raised here is not caught.
\<close>

definition localize_except ::
  "int \<Rightarrow> time_cell list option \<Rightarrow> py_error + (int option list \<times> int)" where
  "localize_except now col =
     (case col of
        None \<Rightarrow> Inl (KeyError ''time'')
      | Some cells \<Rightarrow>
          (case to_datetime cells of
             Inl e \<Rightarrow> Inl e
           | Inr parsed \<Rightarrow>
               (case tz_localize UTC parsed of
                  Inl e \<Rightarrow> Inl e
                | Inr ts \<Rightarrow> Inr (ts, now))))"

text \<open>
  Line 150: the label of one timestamp against the boundary. A comparison with
  not-a-time is false.
\<close>

definition stamp_gt :: "int option \<Rightarrow> int \<Rightarrow> bool" where
  "stamp_gt x ct = (case x of None \<Rightarrow> False | Some t \<Rightarrow> t > ct)"

definition Type_of :: "int \<Rightarrow> int option \<Rightarrow> string" where
  "Type_of ct x = (if stamp_gt x ct then ''Forecast'' else ''Historical'')"

definition label_rows :: "int \<Rightarrow> int option list \<Rightarrow> temp list \<Rightarrow> row list" where
  "label_rows ct ts temps =
     map (\<lambda>(t, v). \<lparr>time = t, temperature_2m = v, Type = Type_of ct t\<rparr>) (zip ts temps)"

text \<open>
  Line 152: the last Historical row if there is one, else \<^verbatim>\<open>df.iloc[0]\<close>, which
  raises on a frame with no rows.
\<close>

definition current_temp_row :: "row list \<Rightarrow> py_error + row" where
  "current_temp_row d =
     (let historical = filter (\<lambda>r. Type r = ''Historical'') d
      in if historical \<noteq> [] then Inr (last historical)
         else (case d of [] \<Rightarrow> Inl IndexError | r # _ \<Rightarrow> Inr r))"

text \<open>
  Lines 154 and 155: \<^verbatim>\<open>Series.max()\<close> and \<^verbatim>\<open>Series.min()\<close> skip not-a-number
  entries and give not-a-number when nothing is left.
\<close>

fun dropna :: "temp list \<Rightarrow> real list" where
  "dropna [] = []"
| "dropna (NaN # xs) = dropna xs"
| "dropna (Num x # xs) = x # dropna xs"

definition series_max :: "temp list \<Rightarrow> temp" where
  "series_max xs = (case dropna xs of [] \<Rightarrow> NaN | v # vs \<Rightarrow> Num (fold max vs v))"

definition series_min :: "temp list \<Rightarrow> temp" where
  "series_min xs = (case dropna xs of [] \<Rightarrow> NaN | v # vs \<Rightarrow> Num (fold min vs v))"

text \<open>
  Lines 159 to 163: the text of a metric. \<open>fmt\<close> is Python's formatting of a float that
  is a number; not-a-number is formatted as \<^verbatim>\<open>nan\<close>. The degree sign is written in
  UTF-8.
\<close>

definition degF :: string where
  "degF = [CHR 0xC2, CHR 0xB0, CHR ''F'']"

definition metric_text :: "(real \<Rightarrow> string) \<Rightarrow> temp \<Rightarrow> string" where
  "metric_text fmt v = (case v of NaN \<Rightarrow> ''nan'' | Num x \<Rightarrow> fmt x) @ degF"

definition unavailable_message :: string where
  "unavailable_message = ''Weather data is not available for this city.''"

definition timezone_message :: string where
  "timezone_message = ''Could not localize timezone, using UTC as a fallback.''"

text \<open>Lines 150 to 163, once the column is localized and the boundary is known.\<close>

definition metrics ::
  "(real \<Rightarrow> string) \<Rightarrow> ui_event list \<Rightarrow> int option list \<Rightarrow> temp list \<Rightarrow> int
     \<Rightarrow> ui_event list \<times> run" where
  "metrics fmt evs ts temps ct =
     (let d = label_rows ct ts temps
      in case current_temp_row d of
           Inl e \<Rightarrow> (evs, Crashed e)
         | Inr r \<Rightarrow>
             let cur = temperature_2m r;
                 mx = series_max (map temperature_2m d);
                 mn = series_min (map temperature_2m d)
             in (evs @ [St_metric ''Current Temp'' (metric_text fmt cur),
                        St_metric ''Max Temp (Forecast)'' (metric_text fmt mx),
                        St_metric ''Min Temp (Forecast)'' (metric_text fmt mn)],
                 Shaped \<lparr>df = d, current_time = ct, current_temp = cur,
                         max_temp = mx, min_temp = mn\<rparr>))"

text \<open>Lines 136 to 163, for the \<^verbatim>\<open>hourly\<close> member of an object.\<close>

definition shape ::
  "(real \<Rightarrow> string) \<Rightarrow> (string \<Rightarrow> tzinfo option) \<Rightarrow> int \<Rightarrow> string option \<Rightarrow> hourly_data
     \<Rightarrow> ui_event list \<times> run" where
  "shape fmt timezone now tzname hourly =
     (case DataFrame hourly of
        Inl e \<Rightarrow> ([], Crashed e)
      | Inr _ \<Rightarrow>
          (case h_temperature_2m hourly of
             None \<Rightarrow> ([], Crashed (KeyError ''temperature_2m''))
           | Some cells \<Rightarrow>
               let temps = map to_numeric cells;
                   api_timezone_str = (case tzname of None \<Rightarrow> ''UTC'' | Some z \<Rightarrow> z)
               in (case localize_try timezone now api_timezone_str (h_time hourly) of
                     Inr (ts, ct) \<Rightarrow> metrics fmt [] ts temps ct
                   | Inl _ \<Rightarrow>
                       (case localize_except now (h_time hourly) of
                          Inl e \<Rightarrow> ([St_warning timezone_message], Crashed e)
                        | Inr (ts, ct) \<Rightarrow>
                            metrics fmt [St_warning timezone_message] ts temps ct))))"

text \<open>
  Lines 135 to 165, the "Key Metrics" block: what is drawn, and how the block ends.
  The guard \<^verbatim>\<open>weather_data and "hourly" in weather_data\<close> is false for
  \<^verbatim>\<open>None\<close>, for a value that is falsy (zero, \<^verbatim>\<open>false\<close>, empty) and for an object,
  string or array without \<^verbatim>\<open>"hourly"\<close>; on a number other than zero and on
  \<^verbatim>\<open>true\<close> the test \<^verbatim>\<open>in\<close> raises; a string or an array that holds
  \<^verbatim>\<open>"hourly"\<close> passes the guard, and line 136 raises on indexing it by a string.
\<close>

definition key_metrics ::
  "(real \<Rightarrow> string) \<Rightarrow> (string \<Rightarrow> tzinfo option) \<Rightarrow> int \<Rightarrow> json_body option
     \<Rightarrow> ui_event list \<times> run" where
  "key_metrics fmt timezone now weather =
     (case weather of
        None \<Rightarrow> ([St_warning unavailable_message], Unavailable)
      | Some (JNumber x) \<Rightarrow>
          if x = 0 then ([St_warning unavailable_message], Unavailable)
          else ([], Crashed TypeError)
      | Some (JBool b) \<Rightarrow>
          if b then ([], Crashed TypeError)
          else ([St_warning unavailable_message], Unavailable)
      | Some (JString s) \<Rightarrow>
          if str_contains ''hourly'' s then ([], Crashed TypeError)
          else ([St_warning unavailable_message], Unavailable)
      | Some (JArray xs) \<Rightarrow>
          if Some ''hourly'' \<in> set xs then ([], Crashed TypeError)
          else ([St_warning unavailable_message], Unavailable)
      | Some (JObject wd) \<Rightarrow>
          (case wd_hourly wd of
             None \<Rightarrow> ([St_warning unavailable_message], Unavailable)
           | Some hourly \<Rightarrow> shape fmt timezone now (wd_timezone wd) hourly))"

text \<open>Comparison of floats: every comparison with not-a-number is false.\<close>

definition temp_le :: "temp \<Rightarrow> temp \<Rightarrow> bool" where
  "temp_le a b = (case (a, b) of (Num x, Num y) \<Rightarrow> x \<le> y | _ \<Rightarrow> False)"

subsection \<open>Example inputs\<close>

text \<open>
  A timezone table with two zones, a formatter for four numbers, the response of three
  hourly samples 09:00, 10:00 and 11:00 (in seconds of the day), and variations of it.
\<close>

definition example_timezone :: "string \<Rightarrow> tzinfo option" where
  "example_timezone z =
     (if z = ''UTC'' then Some (\<lambda>t. Some t)
      else if z = ''America/Chicago'' then Some (\<lambda>t. Some (t + 21600))
      else None)"

definition example_fmt :: "real \<Rightarrow> string" where
  "example_fmt x = (if x = 42 then ''42.0'' else if x = 45 then ''45.0'' else if x = 48 then ''48.0'' else ''50.0'')"

definition example_response :: weather_data where
  "example_response =
     \<lparr>wd_timezone = Some ''UTC'',
      wd_hourly = Some \<lparr>h_time = Some [TimeStr 32400, TimeStr 36000, TimeStr 39600],
                        h_temperature_2m = Some [JNum 42, JNum 45, JNum 48]\<rparr>\<rparr>"

definition example_shaped :: shaped where
  "example_shaped =
     \<lparr>df = [\<lparr>time = Some 32400, temperature_2m = Num 42, Type = ''Historical''\<rparr>,
             \<lparr>time = Some 36000, temperature_2m = Num 45, Type = ''Historical''\<rparr>,
             \<lparr>time = Some 39600, temperature_2m = Num 48, Type = ''Forecast''\<rparr>],
      current_time = 37800, current_temp = Num 45, max_temp = Num 48, min_temp = Num 42\<rparr>"

definition early_shaped :: shaped where
  "early_shaped =
     \<lparr>df = [\<lparr>time = Some 32400, temperature_2m = Num 42, Type = ''Historical''\<rparr>,
             \<lparr>time = Some 36000, temperature_2m = Num 45, Type = ''Forecast''\<rparr>,
             \<lparr>time = Some 39600, temperature_2m = Num 48, Type = ''Forecast''\<rparr>],
      current_time = 34200, current_temp = Num 42, max_temp = Num 48, min_temp = Num 42\<rparr>"

definition future_shaped :: shaped where
  "future_shaped =
     \<lparr>df = [\<lparr>time = Some 54000, temperature_2m = Num 42, Type = ''Forecast''\<rparr>,
             \<lparr>time = Some 57600, temperature_2m = Num 45, Type = ''Forecast''\<rparr>,
             \<lparr>time = Some 61200, temperature_2m = Num 48, Type = ''Forecast''\<rparr>],
      current_time = 37800, current_temp = Num 42, max_temp = Num 48, min_temp = Num 42\<rparr>"

definition nan_response :: weather_data where
  "nan_response =
     \<lparr>wd_timezone = Some ''UTC'',
      wd_hourly = Some \<lparr>h_time = Some [TimeStr 32400, TimeStr 36000],
                        h_temperature_2m = Some [JNull, JUnparseable]\<rparr>\<rparr>"

definition nan_shaped :: shaped where
  "nan_shaped =
     \<lparr>df = [\<lparr>time = Some 32400, temperature_2m = NaN, Type = ''Historical''\<rparr>,
             \<lparr>time = Some 36000, temperature_2m = NaN, Type = ''Historical''\<rparr>],
      current_time = 37800, current_temp = NaN, max_temp = NaN, min_temp = NaN\<rparr>"

definition gap_response :: weather_data where
  "gap_response =
     \<lparr>wd_timezone = Some ''UTC'',
      wd_hourly = Some \<lparr>h_time = Some [TimeStr 32400, TimeStr 36000],
                        h_temperature_2m = Some [JNum 50, JNull]\<rparr>\<rparr>"

definition gap_shaped :: shaped where
  "gap_shaped =
     \<lparr>df = [\<lparr>time = Some 32400, temperature_2m = Num 50, Type = ''Historical''\<rparr>,
             \<lparr>time = Some 36000, temperature_2m = NaN, Type = ''Historical''\<rparr>],
      current_time = 37800, current_temp = NaN, max_temp = Num 50, min_temp = Num 50\<rparr>"

definition process0 :: process where
  "process0 = \<lparr>cache = Map.empty, calls = []\<rparr>"

definition new_york :: coords where
  "new_york = (40.7128, -74.0060)"

definition example_network :: network where
  "example_network n k =
     (if n = 0 then Raises Timeout else Response 200 (JSON (JObject example_response)))"

definition badtz_response :: weather_data where
  "badtz_response = example_response\<lparr>wd_timezone := Some ''Mars/Olympus''\<rparr>"

section \<open>Properties\<close>

lemmas run_defs = key_metrics_def shape_def DataFrame_def to_numeric_def to_datetime_def
    parse_cell_def is_Naive_def is_Aware_def UTC_def stamp_gt_def
    localize_try_def localize_except_def metrics_def label_rows_def Type_of_def
    current_temp_row_def series_max_def series_min_def metric_text_def Let_def

lemma metrics_Shaped:
  assumes "metrics fmt evs0 ts temps ct = (evs, Shaped s)"
  shows "df s = label_rows ct ts temps" and "current_time s = ct"
    and "\<exists>r. current_temp_row (df s) = Inr r \<and> current_temp s = temperature_2m r"
    and "max_temp s = series_max (map temperature_2m (df s))"
    and "min_temp s = series_min (map temperature_2m (df s))"
    and "evs = evs0 @ [St_metric ''Current Temp'' (metric_text fmt (current_temp s)),
                        St_metric ''Max Temp (Forecast)'' (metric_text fmt (max_temp s)),
                        St_metric ''Min Temp (Forecast)'' (metric_text fmt (min_temp s))]"
  using assms by (auto simp: metrics_def Let_def split: sum.splits)

lemma shape_Shaped:
  assumes "shape fmt timezone now tzname h = (evs, Shaped s)"
  shows "\<exists>ts temps. df s = label_rows now ts temps" and "current_time s = now"
    and "\<exists>r. current_temp_row (df s) = Inr r \<and> current_temp s = temperature_2m r"
    and "max_temp s = series_max (map temperature_2m (df s))"
    and "min_temp s = series_min (map temperature_2m (df s))"
    and "\<exists>evs0. evs = evs0 @ [St_metric ''Current Temp'' (metric_text fmt (current_temp s)),
                        St_metric ''Max Temp (Forecast)'' (metric_text fmt (max_temp s)),
                        St_metric ''Min Temp (Forecast)'' (metric_text fmt (min_temp s))]"
  using assms
  by (auto simp: shape_def Let_def localize_try_def localize_except_def
      split: option.splits sum.splits prod.splits dest: metrics_Shaped)

lemma key_metrics_shape:
  assumes "key_metrics fmt timezone now weather = (evs, Shaped s)"
  shows "\<exists>wd h. weather = Some (JObject wd) \<and> wd_hourly wd = Some h
           \<and> shape fmt timezone now (wd_timezone wd) h = (evs, Shaped s)"
  using assms
  by (auto simp: key_metrics_def split: option.splits json_body.splits if_splits)

lemma key_metrics_Shaped:
  assumes "key_metrics fmt timezone now weather = (evs, Shaped s)"
  shows "\<exists>ts temps. df s = label_rows now ts temps" and "current_time s = now"
    and "\<exists>r. current_temp_row (df s) = Inr r \<and> current_temp s = temperature_2m r"
    and "max_temp s = series_max (map temperature_2m (df s))"
    and "min_temp s = series_min (map temperature_2m (df s))"
    and "\<exists>evs0. evs = evs0 @ [St_metric ''Current Temp'' (metric_text fmt (current_temp s)),
                        St_metric ''Max Temp (Forecast)'' (metric_text fmt (max_temp s)),
                        St_metric ''Min Temp (Forecast)'' (metric_text fmt (min_temp s))]"
proof -
  from key_metrics_shape[OF assms] obtain wd :: weather_data and h where
    sh: "shape fmt timezone now (wd_timezone wd) h = (evs, Shaped s)" by blast
  show "\<exists>ts temps. df s = label_rows now ts temps" by (rule shape_Shaped(1)[OF sh])
  show "current_time s = now" by (rule shape_Shaped(2)[OF sh])
  show "\<exists>r. current_temp_row (df s) = Inr r \<and> current_temp s = temperature_2m r"
    by (rule shape_Shaped(3)[OF sh])
  show "max_temp s = series_max (map temperature_2m (df s))" by (rule shape_Shaped(4)[OF sh])
  show "min_temp s = series_min (map temperature_2m (df s))" by (rule shape_Shaped(5)[OF sh])
  show "\<exists>evs0. evs = evs0 @ [St_metric ''Current Temp'' (metric_text fmt (current_temp s)),
                        St_metric ''Max Temp (Forecast)'' (metric_text fmt (max_temp s)),
                        St_metric ''Min Temp (Forecast)'' (metric_text fmt (min_temp s))]"
    by (rule shape_Shaped(6)[OF sh])
qed

lemma example_run:
  "key_metrics example_fmt example_timezone 37800 (Some (JObject example_response)) =
     ([St_metric ''Current Temp'' (''45.0'' @ degF),
       St_metric ''Max Temp (Forecast)'' (''48.0'' @ degF),
       St_metric ''Min Temp (Forecast)'' (''42.0'' @ degF)], Shaped example_shaped)"
  by (simp add: run_defs example_response_def example_timezone_def example_shaped_def example_fmt_def)

lemma early_run:
  "key_metrics example_fmt example_timezone 34200 (Some (JObject example_response)) =
     ([St_metric ''Current Temp'' (''42.0'' @ degF),
       St_metric ''Max Temp (Forecast)'' (''48.0'' @ degF),
       St_metric ''Min Temp (Forecast)'' (''42.0'' @ degF)], Shaped early_shaped)"
  by (simp add: run_defs example_response_def example_timezone_def early_shaped_def example_fmt_def)

lemma future_run:
  "key_metrics example_fmt example_timezone 37800
     (Some (JObject (example_response\<lparr>wd_timezone := Some ''America/Chicago''\<rparr>))) =
     ([St_metric ''Current Temp'' (''42.0'' @ degF),
       St_metric ''Max Temp (Forecast)'' (''48.0'' @ degF),
       St_metric ''Min Temp (Forecast)'' (''42.0'' @ degF)], Shaped future_shaped)"
  by (simp add: run_defs example_response_def example_timezone_def future_shaped_def example_fmt_def)

lemma Type_label_rows:
  "r \<in> set (label_rows ct ts temps) \<Longrightarrow> Type r = Type_of ct (time r)"
  by (auto simp: label_rows_def)

text \<open>
  Claim C1. In a shaped series the boundary is the instant the clock gave; every sample
  whose localized timestamp is at or before the boundary is labelled Historical, every
  sample whose timestamp is after it is labelled Forecast, and each sample carries exactly
  one of the two labels.
\<close>

theorem C1_labels:
  assumes "key_metrics fmt timezone now weather = (evs, Shaped s)" and "r \<in> set (df s)"
  shows "current_time s = now
       \<and> (time r = Some t \<longrightarrow> t \<le> current_time s \<longrightarrow> Type r = ''Historical'')
       \<and> (time r = Some t \<longrightarrow> current_time s < t \<longrightarrow> Type r = ''Forecast'')
       \<and> (Type r = ''Historical'' \<or> Type r = ''Forecast'')
       \<and> \<not> (Type r = ''Historical'' \<and> Type r = ''Forecast'')"
proof -
  from key_metrics_Shaped(1,2)[OF assms(1)] assms(2)
  have "Type r = Type_of (current_time s) (time r)" and "current_time s = now"
    by (auto dest: Type_label_rows)
  then show ?thesis by (simp add: Type_of_def stamp_gt_def)
qed

text \<open>
  Claim C1 on the series of 09:00, 10:00 and 11:00 with the boundary at 10:30: the 10:00
  sample is Historical and the 11:00 sample is Forecast.
\<close>

theorem C1_labels_witness:
  "key_metrics example_fmt example_timezone 37800 (Some (JObject example_response)) =
     ([St_metric ''Current Temp'' (''45.0'' @ degF),
       St_metric ''Max Temp (Forecast)'' (''48.0'' @ degF),
       St_metric ''Min Temp (Forecast)'' (''42.0'' @ degF)], Shaped example_shaped)
   \<and> df example_shaped ! 1 \<in> set (df example_shaped)
   \<and> time (df example_shaped ! 1) = Some 36000
   \<and> 36000 \<le> current_time example_shaped
   \<and> Type (df example_shaped ! 1) = ''Historical''
   \<and> df example_shaped ! 2 \<in> set (df example_shaped)
   \<and> time (df example_shaped ! 2) = Some 39600
   \<and> current_time example_shaped < 39600
   \<and> Type (df example_shaped ! 2) = ''Forecast''"
  using C1_labels [OF example_run, of "df example_shaped ! 1" 36000]
        C1_labels [OF example_run, of "df example_shaped ! 2" 39600] example_run
  by (simp add: example_shaped_def)

text \<open>
  Claim C2. When a shaped series has a Historical sample, the current temperature is the
  temperature of the last Historical sample; when it has none, the series has a first
  sample and the current temperature is that sample's temperature, whatever its label. The
  current temperature is what the first metric shows.
\<close>

theorem C2_current_temp:
  assumes "key_metrics fmt timezone now weather = (evs, Shaped s)"
  shows "(filter (\<lambda>r. Type r = ''Historical'') (df s) \<noteq> [] \<longrightarrow>
            current_temp s = temperature_2m (last (filter (\<lambda>r. Type r = ''Historical'') (df s))))
       \<and> (filter (\<lambda>r. Type r = ''Historical'') (df s) = [] \<longrightarrow>
            df s \<noteq> [] \<and> current_temp s = temperature_2m (hd (df s)))
       \<and> St_metric ''Current Temp'' (metric_text fmt (current_temp s)) \<in> set evs"
proof -
  from key_metrics_Shaped(3)[OF assms] obtain r where
    "current_temp_row (df s) = Inr r" "current_temp s = temperature_2m r" by blast
  then show ?thesis using key_metrics_Shaped(6)[OF assms]
    by (auto simp: current_temp_row_def Let_def split: if_splits list.splits)
qed

text \<open>
  Claim C2 on two runs of the block: with the boundary 10:30 in the middle of the samples the
  series is shaped and current is the 10:00 reading; with every sample after the boundary
  the series is shaped and current is the first reading.
\<close>

theorem C2_current_temp_witness:
  "key_metrics example_fmt example_timezone 37800 (Some (JObject example_response)) =
     ([St_metric ''Current Temp'' (''45.0'' @ degF),
       St_metric ''Max Temp (Forecast)'' (''48.0'' @ degF),
       St_metric ''Min Temp (Forecast)'' (''42.0'' @ degF)], Shaped example_shaped)
   \<and> filter (\<lambda>r. Type r = ''Historical'') (df example_shaped) \<noteq> []
   \<and> temperature_2m (last (filter (\<lambda>r. Type r = ''Historical'') (df example_shaped))) = Num 45
   \<and> current_temp example_shaped = Num 45
   \<and> key_metrics example_fmt example_timezone 37800
       (Some (JObject (example_response\<lparr>wd_timezone := Some ''America/Chicago''\<rparr>))) =
     ([St_metric ''Current Temp'' (''42.0'' @ degF),
       St_metric ''Max Temp (Forecast)'' (''48.0'' @ degF),
       St_metric ''Min Temp (Forecast)'' (''42.0'' @ degF)], Shaped future_shaped)
   \<and> filter (\<lambda>r. Type r = ''Historical'') (df future_shaped) = []
   \<and> temperature_2m (hd (df future_shaped)) = Num 42
   \<and> current_temp future_shaped = Num 42"
  using C2_current_temp [OF example_run] C2_current_temp [OF future_run] example_run future_run
  by (simp add: example_shaped_def future_shaped_def)

text \<open>
  Claim C10. For a response whose hourly arrays are both empty, whatever its timezone, no
  row is Historical, the fallback reads the first row of a frame without rows, and the
  block ends in \<^verbatim>\<open>IndexError\<close> instead of metrics.
\<close>

theorem C10_empty_series:
  "snd (key_metrics fmt timezone now
          (Some (JObject \<lparr>wd_timezone = z,
                 wd_hourly = Some \<lparr>h_time = Some [], h_temperature_2m = Some []\<rparr>\<rparr>)))
     = Crashed IndexError
   \<and> filter (\<lambda>r. Type r = ''Historical'') (label_rows now [] []) = []
   \<and> current_temp_row (label_rows now [] []) = Inl IndexError"
  by (simp add: run_defs split: option.splits)

text \<open>
  Claim C10 at the timezone UTC.
\<close>

theorem C10_empty_series_witness:
  "snd (key_metrics example_fmt example_timezone 37800
          (Some (JObject \<lparr>wd_timezone = Some ''UTC'',
                 wd_hourly = Some \<lparr>h_time = Some [], h_temperature_2m = Some []\<rparr>\<rparr>)))
     = Crashed IndexError"
  using C10_empty_series [of example_fmt example_timezone 37800 "Some ''UTC''"]
  by simp

lemma set_dropna: "set (dropna xs) = {x. Num x \<in> set xs}"
  by (induction xs rule: dropna.induct) auto

lemma series_max_eq:
  "series_max xs = (if dropna xs = [] then NaN else Num (Max (set (dropna xs))))"
  by (cases "dropna xs") (simp_all add: series_max_def Max.set_eq_fold del: set_simps)

lemma series_min_eq:
  "series_min xs = (if dropna xs = [] then NaN else Num (Min (set (dropna xs))))"
  by (cases "dropna xs") (simp_all add: series_min_def Min.set_eq_fold del: set_simps)

lemma nan_run:
  "key_metrics example_fmt example_timezone 37800 (Some (JObject nan_response)) =
     ([St_metric ''Current Temp'' (''nan'' @ degF),
       St_metric ''Max Temp (Forecast)'' (''nan'' @ degF),
       St_metric ''Min Temp (Forecast)'' (''nan'' @ degF)], Shaped nan_shaped)"
  by (simp add: run_defs nan_response_def example_timezone_def nan_shaped_def)

text \<open>
  Claim C3 fails where it says that all-not-a-number series are reported as unavailable:
  with the temperatures \<^verbatim>\<open>null\<close> and unparseable, the three metrics are drawn with the
  text \<^verbatim>\<open>nan\<close> followed by the unit, and the data-unavailable warning is not drawn.
\<close>

theorem C3_all_nan_counterexample:
  "list_all (\<lambda>c. to_numeric c = NaN) [JNull, JUnparseable]
   \<and> key_metrics example_fmt example_timezone 37800 (Some (JObject nan_response)) =
     ([St_metric ''Current Temp'' (''nan'' @ degF),
       St_metric ''Max Temp (Forecast)'' (''nan'' @ degF),
       St_metric ''Min Temp (Forecast)'' (''nan'' @ degF)], Shaped nan_shaped)
   \<and> St_warning unavailable_message
       \<notin> set (fst (key_metrics example_fmt example_timezone 37800 (Some (JObject nan_response))))"
  by (simp add: nan_run to_numeric_def)

text \<open>
  Claim C3, amended. In a shaped series the max and min metrics are the greatest and the
  least of the temperatures of the whole series that are numbers; when no temperature is a
  number, both are not-a-number and are drawn as the text \<^verbatim>\<open>nan\<close> followed by the
  unit (no crash, no zero).
\<close>

theorem C3_max_min:
  assumes "key_metrics fmt timezone now weather = (evs, Shaped s)"
  shows "(dropna (map temperature_2m (df s)) \<noteq> [] \<longrightarrow>
            max_temp s = Num (Max {x. Num x \<in> set (map temperature_2m (df s))})
          \<and> min_temp s = Num (Min {x. Num x \<in> set (map temperature_2m (df s))}))
       \<and> (dropna (map temperature_2m (df s)) = [] \<longrightarrow>
            max_temp s = NaN \<and> min_temp s = NaN
          \<and> St_metric ''Max Temp (Forecast)'' (''nan'' @ degF) \<in> set evs
          \<and> St_metric ''Min Temp (Forecast)'' (''nan'' @ degF) \<in> set evs)"
proof -
  from key_metrics_Shaped(6)[OF assms] obtain evs0 where
    evs: "evs = evs0 @ [St_metric ''Current Temp'' (metric_text fmt (current_temp s)),
                        St_metric ''Max Temp (Forecast)'' (metric_text fmt (max_temp s)),
                        St_metric ''Min Temp (Forecast)'' (metric_text fmt (min_temp s))]"
    by blast
  have mx: "max_temp s = series_max (map temperature_2m (df s))"
    and mn: "min_temp s = series_min (map temperature_2m (df s))"
    using key_metrics_Shaped(4,5)[OF assms] by simp_all
  show ?thesis
    unfolding mx mn series_max_eq series_min_eq set_dropna[symmetric]
    using evs mx mn by (simp add: series_max_eq series_min_eq metric_text_def)
qed

text \<open>
  Claim C3 (amended) on the series 42, 45, 48 and on the series without a number.
\<close>

theorem C3_max_min_witness:
  "dropna (map temperature_2m (df example_shaped)) \<noteq> []
   \<and> max_temp example_shaped = Num (Max {x. Num x \<in> set (map temperature_2m (df example_shaped))})
   \<and> min_temp example_shaped = Num (Min {x. Num x \<in> set (map temperature_2m (df example_shaped))})
   \<and> dropna (map temperature_2m (df nan_shaped)) = []
   \<and> max_temp nan_shaped = NaN \<and> min_temp nan_shaped = NaN"
  using C3_max_min [OF example_run] C3_max_min [OF nan_run]
  by (simp add: example_shaped_def nan_shaped_def)

lemma fold_max_ge: "x \<in> set (v # vs) \<Longrightarrow> x \<le> fold max vs (v::real)"
  unfolding Max.set_eq_fold[symmetric] by (rule Max_ge) simp_all

lemma fold_min_le: "x \<in> set (v # vs) \<Longrightarrow> fold min vs (v::real) \<le> x"
  unfolding Min.set_eq_fold[symmetric] by (rule Min_le) simp_all

lemma series_bounds:
  assumes "Num x \<in> set xs"
  shows "temp_le (series_min xs) (Num x) \<and> temp_le (Num x) (series_max xs)"
proof -
  from assms have mem: "x \<in> set (dropna xs)" by (simp add: set_dropna)
  show ?thesis
  proof (cases "dropna xs")
    case Nil
    with mem show ?thesis by simp
  next
    case (Cons v vs)
    with mem have "x \<in> set (v # vs)" by simp
    from fold_max_ge[OF this] fold_min_le[OF this] Cons show ?thesis
      by (simp add: series_min_def series_max_def temp_le_def)
  qed
qed

lemma current_temp_row_in: "current_temp_row d = Inr r \<Longrightarrow> r \<in> set d"
proof -
  assume a: "current_temp_row d = Inr r"
  show ?thesis
  proof (cases "filter (\<lambda>r. Type r = ''Historical'') d = []")
    case True
    with a show ?thesis by (auto simp: current_temp_row_def split: list.splits)
  next
    case False
    then have "last (filter (\<lambda>r. Type r = ''Historical'') d) \<in> set (filter (\<lambda>r. Type r = ''Historical'') d)"
      by (rule last_in_set)
    with a False show ?thesis by (simp add: current_temp_row_def)
  qed
qed

text \<open>
  Claim C7 fails when the last Historical sample has no temperature: with the readings 50
  and \<^verbatim>\<open>null\<close>, both Historical, the current temperature is not-a-number while min and
  max are 50, and no comparison with not-a-number holds.
\<close>

theorem C7_nan_current_counterexample:
  "snd (key_metrics example_fmt example_timezone 37800 (Some (JObject gap_response))) = Shaped gap_shaped
   \<and> filter (\<lambda>r. Type r = ''Historical'') (df gap_shaped) \<noteq> []
   \<and> \<not> (temp_le (min_temp gap_shaped) (current_temp gap_shaped)
        \<and> temp_le (current_temp gap_shaped) (max_temp gap_shaped))"
  by (simp add: run_defs gap_response_def example_timezone_def gap_shaped_def temp_le_def)

text \<open>
  Claim C7, amended. In a shaped series with at least one Historical sample whose current
  temperature is a number, min \<open>\<le>\<close> current \<open>\<le>\<close> max; with no Historical sample the current
  temperature is the first sample's temperature.
\<close>

theorem C7_current_in_range:
  assumes "key_metrics fmt timezone now weather = (evs, Shaped s)"
  shows "(filter (\<lambda>r. Type r = ''Historical'') (df s) \<noteq> [] \<and> current_temp s \<noteq> NaN \<longrightarrow>
            temp_le (min_temp s) (current_temp s) \<and> temp_le (current_temp s) (max_temp s))
       \<and> (filter (\<lambda>r. Type r = ''Historical'') (df s) = [] \<longrightarrow>
            df s \<noteq> [] \<and> current_temp s = temperature_2m (hd (df s)))"
proof -
  from key_metrics_Shaped(3)[OF assms] obtain r where
    r: "current_temp_row (df s) = Inr r" "current_temp s = temperature_2m r" by blast
  have mx: "max_temp s = series_max (map temperature_2m (df s))"
    and mn: "min_temp s = series_min (map temperature_2m (df s))"
    using key_metrics_Shaped(4,5)[OF assms] by simp_all
  have "temp_le (min_temp s) (current_temp s) \<and> temp_le (current_temp s) (max_temp s)"
    if "current_temp s \<noteq> NaN"
  proof -
    from that obtain x where x: "current_temp s = Num x" by (cases "current_temp s") auto
    from current_temp_row_in[OF r(1)] r(2) x
    have "Num x \<in> set (map temperature_2m (df s))" by force
    from series_bounds[OF this] show ?thesis by (simp add: mx mn x)
  qed
  moreover have "df s \<noteq> [] \<and> current_temp s = temperature_2m (hd (df s))"
    if "filter (\<lambda>r. Type r = ''Historical'') (df s) = []"
    using that r by (auto simp: current_temp_row_def split: list.splits)
  ultimately show ?thesis by blast
qed

text \<open>
  Claim C7 (amended) on the series with boundary 10:30 (42 \<open>\<le>\<close> 45 \<open>\<le>\<close> 48) and on the series
  that lies after the boundary.
\<close>

theorem C7_current_in_range_witness:
  "filter (\<lambda>r. Type r = ''Historical'') (df example_shaped) \<noteq> []
   \<and> current_temp example_shaped \<noteq> NaN
   \<and> temp_le (min_temp example_shaped) (current_temp example_shaped)
   \<and> temp_le (current_temp example_shaped) (max_temp example_shaped)
   \<and> filter (\<lambda>r. Type r = ''Historical'') (df future_shaped) = []
   \<and> current_temp future_shaped = temperature_2m (hd (df future_shaped))"
  using C7_current_in_range [OF example_run] C7_current_in_range [OF future_run]
  by (simp add: example_shaped_def future_shaped_def)

lemma get_weather_data_hit:
  "cache s k = Some r \<Longrightarrow> get_weather_data net k s = (r, s)"
  by (simp add: get_weather_data_def)

lemma get_weather_data_miss:
  "cache s k = None \<Longrightarrow>
   get_weather_data net k s =
     (get_weather_data_body (net (length (calls s)) k),
      s\<lparr>cache := (cache s)(k \<mapsto> get_weather_data_body (net (length (calls s)) k)),
        calls := calls s @ [k]\<rparr>)"
  by (simp add: get_weather_data_def Let_def)

lemma get_weather_data_keeps:
  assumes "cache s k = Some r"
  shows "cache (snd (get_weather_data net k' s)) k = Some r
       \<and> count_list (calls (snd (get_weather_data net k' s))) k = count_list (calls s) k"
proof (cases "cache s k'")
  case None
  with assms have "k' \<noteq> k" by auto
  with None assms show ?thesis by (simp add: get_weather_data_miss)
next
  case (Some r')
  with assms show ?thesis by (simp add: get_weather_data_hit)
qed

lemma fetch_all_keeps:
  "cache s k = Some r \<Longrightarrow>
   cache (fetch_all net ks s) k = Some r
   \<and> count_list (calls (fetch_all net ks s)) k = count_list (calls s) k"
proof (induction ks arbitrary: s)
  case Nil
  then show ?case by simp
next
  case (Cons k' ks)
  from get_weather_data_keeps[OF Cons.prems, of net k']
  have c: "cache (snd (get_weather_data net k' s)) k = Some r"
    and n: "count_list (calls (snd (get_weather_data net k' s))) k = count_list (calls s) k"
    by simp_all
  from Cons.IH[OF c] n show ?case by simp
qed

text \<open>
  Claim C8. From a process in which a coordinate pair is not cached, fetching the pair twice
  makes exactly one outbound call, and the second fetch returns what the first returned;
  with any fetches in between, the pair is still called exactly once.
\<close>

theorem C8_one_network_call:
  assumes "cache s k = None"
  shows "calls (fetch_all net [k, k] s) = calls s @ [k]
       \<and> fst (get_weather_data net k (snd (get_weather_data net k s))) = fst (get_weather_data net k s)
       \<and> count_list (calls (fetch_all net (k # ks @ [k]) s)) k = Suc (count_list (calls s) k)"
proof -
  let ?r = "get_weather_data_body (net (length (calls s)) k)"
  let ?s1 = "snd (get_weather_data net k s)"
  have c1: "cache ?s1 k = Some ?r" and l1: "calls ?s1 = calls s @ [k]"
    and r1: "fst (get_weather_data net k s) = ?r"
    using assms by (simp_all add: get_weather_data_miss)
  have twice: "get_weather_data net k ?s1 = (?r, ?s1)"
    using c1 by (rule get_weather_data_hit)
  have "count_list (calls (fetch_all net (ks @ [k]) ?s1)) k = count_list (calls ?s1) k"
    using fetch_all_keeps[OF c1, of net "ks @ [k]"] by simp
  then show ?thesis using twice l1 r1 by simp
qed

text \<open>
  Claim C8 in a fresh process, for New York, with and without a fetch of Chicago in between.
\<close>

theorem C8_one_network_call_witness:
  "cache process0 new_york = None
   \<and> calls (fetch_all example_network [new_york, new_york] process0) = [new_york]
   \<and> count_list (calls (fetch_all example_network [new_york, (41.8781, -87.6298), new_york] process0))
        new_york = 1"
  using C8_one_network_call [of process0 new_york example_network "[(41.8781, -87.6298)]"]
  by (simp add: process0_def)

lemma failed_run:
  "get_weather_data example_network new_york process0 =
     (([St_error fetch_message Timeout], None),
      \<lparr>cache = [new_york \<mapsto> ([St_error fetch_message Timeout], None)], calls = [new_york]\<rparr>)"
  by (simp add: get_weather_data_def process0_def example_network_def get_weather_data_body_def
        Let_def)

text \<open>
  Claim C4 fails where it says that a failed result is not memoized: after a fetch that
  timed out, the table holds the failed result for the pair, and a second fetch returns it
  without an outbound call, although the network would have answered.
\<close>

theorem C4_failure_cached_counterexample:
  "example_network (length (calls process0)) new_york = Raises Timeout
   \<and> cache (snd (get_weather_data example_network new_york process0)) new_york
       = Some ([St_error fetch_message Timeout], None)
   \<and> example_network 1 new_york = Response 200 (JSON (JObject example_response))
   \<and> fst (get_weather_data example_network new_york
              (snd (get_weather_data example_network new_york process0)))
       = ([St_error fetch_message Timeout], None)
   \<and> calls (snd (get_weather_data example_network new_york
                   (snd (get_weather_data example_network new_york process0))))
       = [new_york]"
proof -
  have "example_network (length (calls process0)) new_york = Raises Timeout"
    and "example_network 1 new_york = Response 200 (JSON (JObject example_response))"
    by (simp_all add: example_network_def process0_def)
  then show ?thesis
    by (simp add: failed_run get_weather_data_hit)
qed

text \<open>
  Claim C4, amended. A fetch of an uncached pair that ends in an exception of the request or
  in a status from 400 to 599 draws the error message and returns no data; the page then
  draws the data-unavailable warning. The failed result is stored in the memoization table,
  and a later fetch of the pair returns it without an outbound call.
\<close>

theorem C4_failed_fetch:
  assumes "cache s k = None"
    and "net (length (calls s)) k = Raises e
         \<or> (\<exists>code body. net (length (calls s)) k = Response code body
                \<and> 400 \<le> code \<and> code < 600 \<and> e = HTTPError code)"
  shows "fst (get_weather_data net k s) = ([St_error fetch_message e], None)
       \<and> key_metrics fmt timezone now (snd (fst (get_weather_data net k s)))
           = ([St_warning unavailable_message], Unavailable)
       \<and> cache (snd (get_weather_data net k s)) k = Some ([St_error fetch_message e], None)
       \<and> get_weather_data net' k (snd (get_weather_data net k s))
           = (([St_error fetch_message e], None), snd (get_weather_data net k s))"
proof -
  from assms(2) have b: "get_weather_data_body (net (length (calls s)) k) = ([St_error fetch_message e], None)"
    by (auto simp: get_weather_data_body_def)
  have r: "fst (get_weather_data net k s) = ([St_error fetch_message e], None)"
    and c: "cache (snd (get_weather_data net k s)) k = Some ([St_error fetch_message e], None)"
    using assms(1) b by (simp_all add: get_weather_data_miss)
  from get_weather_data_hit[OF c] r c show ?thesis
    by (simp add: key_metrics_def)
qed

text \<open>
  Claim C4 (amended) in a fresh process whose first call times out.
\<close>

theorem C4_failed_fetch_witness:
  "cache process0 new_york = None
   \<and> example_network (length (calls process0)) new_york = Raises Timeout
   \<and> fst (get_weather_data example_network new_york process0) = ([St_error fetch_message Timeout], None)
   \<and> cache (snd (get_weather_data example_network new_york process0)) new_york
       = Some ([St_error fetch_message Timeout], None)"
  using C4_failed_fetch [of process0 new_york example_network Timeout]
  by (simp add: process0_def example_network_def)

lemma to_datetime_length: "to_datetime cells = Inr col \<Longrightarrow> length col = length cells"
  by (auto simp: to_datetime_def Let_def split: if_splits)

lemma tz_localize_length: "tz_localize tz col = Inr us \<Longrightarrow> length us = length col"
  by (induction tz col arbitrary: us rule: tz_localize.induct)
     (auto split: option.splits sum.splits)

lemma label_rows_columns:
  "length ts = length temps \<Longrightarrow>
   map time (label_rows ct ts temps) = ts \<and> map temperature_2m (label_rows ct ts temps) = temps"
  by (induction ts temps rule: list_induct2) (simp_all add: label_rows_def)

lemma to_datetime_naive: "to_datetime (map TimeStr ts) = Inr (map Naive ts)"
  by (auto simp: to_datetime_def Let_def list_ex_iff parse_cell_def is_Aware_def)

lemma to_datetime_plain:
  assumes "\<forall>c\<in>set tcells. c = TimeNull \<or> (\<exists>t. c = TimeStr t)"
  shows "to_datetime tcells = Inr (map parse_cell tcells)"
proof -
  from assms have "TimeBad \<notin> set tcells" by auto
  moreover from assms have "\<not> list_ex is_Aware (map parse_cell tcells)"
    by (auto simp: list_ex_iff parse_cell_def is_Aware_def)
  ultimately show ?thesis by (simp add: to_datetime_def Let_def)
qed

lemma tz_localize_UTC:
  "\<forall>c\<in>set tcells. c = TimeNull \<or> (\<exists>t. c = TimeStr t) \<Longrightarrow>
   tz_localize UTC (map parse_cell tcells)
     = Inr (map (\<lambda>c. case c of TimeStr t \<Rightarrow> Some t | _ \<Rightarrow> None) tcells)"
  by (induction tcells) (auto simp: parse_cell_def UTC_def)

lemma tz_localize_sorted:
  assumes "tz_localize tz (map Naive ts) = Inr us" and "sorted ts"
    and "\<forall>a b u v. a \<le> b \<and> tz a = Some u \<and> tz b = Some v \<longrightarrow> u \<le> v"
  shows "\<exists>vs. us = map Some vs \<and> sorted vs \<and> (\<forall>v\<in>set vs. \<exists>t\<in>set ts. tz t = Some v)"
  using assms(1,2)
proof (induction ts arbitrary: us)
  case Nil
  then show ?case by simp
next
  case (Cons t ts)
  from Cons.prems(1) obtain u us' where
    u: "tz t = Some u" and r: "tz_localize tz (map Naive ts) = Inr us'" and us: "us = Some u # us'"
    by (auto split: option.splits sum.splits)
  from Cons.prems(2) have st: "sorted ts" and le: "\<forall>t'\<in>set ts. t \<le> t'" by simp_all
  from Cons.IH[OF r st] obtain vs where
    vs: "us' = map Some vs" "sorted vs" "\<forall>v\<in>set vs. \<exists>t\<in>set ts. tz t = Some v" by blast
  have "\<forall>v\<in>set vs. u \<le> v"
  proof
    fix v assume "v \<in> set vs"
    with vs(3) obtain t' where t': "t' \<in> set ts" "tz t' = Some v" by blast
    with le have "t \<le> t'" by simp
    with assms(3) u t'(2) show "u \<le> v" by blast
  qed
  with vs u us have "us = map Some (u # vs) \<and> sorted (u # vs)
      \<and> (\<forall>v\<in>set (u # vs). \<exists>t'\<in>set (t # ts). tz t' = Some v)"
    by auto
  then show ?case by blast
qed

lemma localize_try_Inr:
  assumes "localize_try timezone now z col = Inr (ts, ct)"
  shows "ct = now \<and> (\<exists>tcells. col = Some tcells \<and> length ts = length tcells)"
proof -
  from assms obtain tz tcells parsed where
    "col = Some tcells" "to_datetime tcells = Inr parsed" "tz_localize tz parsed = Inr ts" "ct = now"
    by (auto simp: localize_try_def split: option.splits sum.splits)
  with to_datetime_length[of tcells parsed] tz_localize_length[of tz parsed ts]
  show ?thesis by simp
qed

lemma localize_except_Inr:
  assumes "localize_except now col = Inr (ts, ct)"
  shows "ct = now \<and> (\<exists>tcells. col = Some tcells \<and> length ts = length tcells)"
proof -
  from assms obtain tcells parsed where
    "col = Some tcells" "to_datetime tcells = Inr parsed" "tz_localize UTC parsed = Inr ts" "ct = now"
    by (auto simp: localize_except_def split: option.splits sum.splits)
  with to_datetime_length[of tcells parsed] tz_localize_length[of UTC parsed ts]
  show ?thesis by simp
qed

lemma shape_rows:
  assumes "shape fmt timezone now tzname h = (evs, Shaped s)"
  shows "\<exists>tcells cells ts.
           h_time h = Some tcells \<and> h_temperature_2m h = Some cells
         \<and> df s = label_rows now ts (map to_numeric cells) \<and> length ts = length cells
         \<and> (localize_try timezone now (case tzname of None \<Rightarrow> ''UTC'' | Some z \<Rightarrow> z) (Some tcells)
              = Inr (ts, now)
            \<or> localize_except now (Some tcells) = Inr (ts, now))"
proof -
  let ?z = "case tzname of None \<Rightarrow> ''UTC'' | Some z \<Rightarrow> z"
  from assms obtain cells where cells: "h_temperature_2m h = Some cells"
    and D: "DataFrame h = Inr ()"
    by (auto simp: shape_def split: sum.splits option.splits)
  have "\<exists>ts evs0. metrics fmt evs0 ts (map to_numeric cells) now = (evs, Shaped s)
          \<and> (\<exists>tcells. h_time h = Some tcells \<and> length ts = length tcells)
          \<and> (localize_try timezone now ?z (h_time h) = Inr (ts, now)
              \<or> localize_except now (h_time h) = Inr (ts, now))"
  proof (cases "localize_try timezone now ?z (h_time h)")
    case (Inr p)
    obtain ts ct where p: "p = (ts, ct)" by (cases p)
    from localize_try_Inr[of timezone now ?z "h_time h" ts ct] Inr p
    have "ct = now" "\<exists>tcells. h_time h = Some tcells \<and> length ts = length tcells" by simp_all
    moreover from assms cells D Inr p
    have "metrics fmt [] ts (map to_numeric cells) ct = (evs, Shaped s)"
      by (simp add: shape_def Let_def)
    ultimately show ?thesis using Inr p by blast
  next
    case (Inl e)
    show ?thesis
    proof (cases "localize_except now (h_time h)")
      case (Inl e')
      with \<open>localize_try timezone now ?z (h_time h) = Inl e\<close> assms cells D show ?thesis
        by (simp add: shape_def Let_def)
    next
      case (Inr p)
      obtain ts ct where p: "p = (ts, ct)" by (cases p)
      from localize_except_Inr[of now "h_time h" ts ct] Inr p
      have "ct = now" "\<exists>tcells. h_time h = Some tcells \<and> length ts = length tcells" by simp_all
      moreover from assms cells D Inl Inr p
      have "metrics fmt [St_warning timezone_message] ts (map to_numeric cells) ct = (evs, Shaped s)"
        by (simp add: shape_def Let_def)
      ultimately show ?thesis using Inr p by blast
    qed
  qed
  then obtain ts evs0 tcells where
    m: "metrics fmt evs0 ts (map to_numeric cells) now = (evs, Shaped s)"
    and tcells: "h_time h = Some tcells" and lt: "length ts = length tcells"
    and l: "localize_try timezone now ?z (h_time h) = Inr (ts, now)
            \<or> localize_except now (h_time h) = Inr (ts, now)"
    by blast
  from D tcells cells have "length tcells = length cells"
    by (simp add: DataFrame_def split: if_splits)
  with lt have "length ts = length cells" by simp
  with metrics_Shaped(1)[OF m] l tcells cells show ?thesis by auto
qed

lemma label_rows_nth:
  assumes "length ts = length temps" and "i < length ts"
  shows "time (label_rows ct ts temps ! i) = ts ! i"
    and "Type (label_rows ct ts temps ! i) = Type_of ct (ts ! i)"
  using assms by (simp_all add: label_rows_def)

text \<open>
  Claim C6. Take a response whose time cells are timezone-naive timestamps in ascending
  order. One shape call reads the boundary once, and every sample of the shaped series is
  labelled by comparing its timestamp with that one instant: Forecast when it is greater,
  else Historical. So no Forecast sample comes before a Historical one. The zone is pytz's;
  what is used of it is that it keeps the order of the wall-clock times it accepts (a
  wall-clock time that a clock change repeats or skips is refused by
  \<^verbatim>\<open>tz_localize\<close>, and the script then reads the times as UTC).
\<close>

theorem C6_monotonic:
  assumes "key_metrics fmt timezone now (Some (JObject wd)) = (evs, Shaped s)"
    and "wd_hourly wd = Some h" and "h_time h = Some (map TimeStr ts)" and "sorted ts"
    and "\<forall>tz a b u v.
           timezone (case wd_timezone wd of None \<Rightarrow> ''UTC'' | Some z \<Rightarrow> z) = Some tz
           \<and> a \<le> b \<and> tz a = Some u \<and> tz b = Some v \<longrightarrow> u \<le> v"
  shows "current_time s = now
       \<and> (\<forall>r\<in>set (df s). \<exists>t. time r = Some t
              \<and> Type r = (if t > now then ''Forecast'' else ''Historical''))
       \<and> (\<forall>i j. i < j \<and> j < length (df s) \<longrightarrow>
              \<not> (Type (df s ! i) = ''Forecast'' \<and> Type (df s ! j) = ''Historical''))"
proof -
  let ?z = "case wd_timezone wd of None \<Rightarrow> ''UTC'' | Some z \<Rightarrow> z"
  from assms(1,2) have sh: "shape fmt timezone now (wd_timezone wd) h = (evs, Shaped s)"
    by (simp add: key_metrics_def)
  from shape_rows[OF sh] assms(3) obtain cells us where
    d: "df s = label_rows now us (map to_numeric cells)" and len: "length us = length cells"
    and l: "localize_try timezone now ?z (Some (map TimeStr ts)) = Inr (us, now)
            \<or> localize_except now (Some (map TimeStr ts)) = Inr (us, now)"
    by auto
  have "\<exists>vs. us = map Some vs \<and> sorted vs"
    using l
  proof
    assume "localize_try timezone now ?z (Some (map TimeStr ts)) = Inr (us, now)"
    then obtain tz where tz: "timezone ?z = Some tz"
      and r: "tz_localize tz (map Naive ts) = Inr us"
      by (auto simp: localize_try_def to_datetime_naive split: option.splits sum.splits)
    from assms(5) tz have "\<forall>a b u v. a \<le> b \<and> tz a = Some u \<and> tz b = Some v \<longrightarrow> u \<le> v"
      by blast
    from tz_localize_sorted[OF r assms(4) this] show ?thesis by blast
  next
    assume "localize_except now (Some (map TimeStr ts)) = Inr (us, now)"
    then have r: "tz_localize UTC (map Naive ts) = Inr us"
      by (auto simp: localize_except_def to_datetime_naive split: sum.splits)
    have "\<forall>a b u v. a \<le> b \<and> UTC a = Some u \<and> UTC b = Some v \<longrightarrow> u \<le> v"
      by (simp add: UTC_def)
    from tz_localize_sorted[OF r assms(4) this] show ?thesis by blast
  qed
  then obtain vs where vs: "us = map Some vs" "sorted vs" by blast
  have lenr: "length (df s) = length vs" using d len vs(1) by (simp add: label_rows_def)
  have len': "length us = length (map to_numeric cells)" using len by simp
  have nth: "time (df s ! i) = Some (vs ! i)
           \<and> Type (df s ! i) = (if vs ! i > now then ''Forecast'' else ''Historical'')"
    if "i < length vs" for i
    using label_rows_nth[OF len', of i now] that vs(1) d
    by (simp add: Type_of_def stamp_gt_def)
  have rows: "\<forall>r\<in>set (df s). \<exists>t. time r = Some t
              \<and> Type r = (if t > now then ''Forecast'' else ''Historical'')"
  proof
    fix r assume "r \<in> set (df s)"
    then obtain i where "i < length (df s)" "df s ! i = r" by (auto simp: in_set_conv_nth)
    with nth[of i] lenr show "\<exists>t. time r = Some t
              \<and> Type r = (if t > now then ''Forecast'' else ''Historical'')" by auto
  qed
  have mono: "\<not> (Type (df s ! i) = ''Forecast'' \<and> Type (df s ! j) = ''Historical'')"
    if "i < j" "j < length (df s)" for i j
  proof -
    from that lenr have j: "j < length vs" and i: "i < length vs" by simp_all
    from vs(2) that(1) j have "vs ! i \<le> vs ! j" by (simp add: sorted_nth_mono)
    with nth[OF i] nth[OF j] show ?thesis by (auto split: if_splits)
  qed
  from key_metrics_Shaped(2)[OF assms(1)] rows mono show ?thesis by blast
qed

text \<open>
  Claim C6 on two runs over the response of 09:00, 10:00 and 11:00: with the boundary at
  10:30 the labels are Historical, Historical, Forecast, and with the boundary at 09:30
  they are Historical, Forecast, Forecast.
\<close>

theorem C6_monotonic_witness:
  "key_metrics example_fmt example_timezone 37800 (Some (JObject example_response)) =
     ([St_metric ''Current Temp'' (''45.0'' @ degF),
       St_metric ''Max Temp (Forecast)'' (''48.0'' @ degF),
       St_metric ''Min Temp (Forecast)'' (''42.0'' @ degF)], Shaped example_shaped)
   \<and> key_metrics example_fmt example_timezone 34200 (Some (JObject example_response)) =
     ([St_metric ''Current Temp'' (''42.0'' @ degF),
       St_metric ''Max Temp (Forecast)'' (''48.0'' @ degF),
       St_metric ''Min Temp (Forecast)'' (''42.0'' @ degF)], Shaped early_shaped)
   \<and> sorted [32400, 36000, 39600 :: int]
   \<and> map Type (df example_shaped) = [''Historical'', ''Historical'', ''Forecast'']
   \<and> map Type (df early_shaped) = [''Historical'', ''Forecast'', ''Forecast'']
   \<and> current_time example_shaped = 37800 \<and> current_time early_shaped = 34200
   \<and> \<not> (Type (df example_shaped ! 1) = ''Forecast'' \<and> Type (df example_shaped ! 2) = ''Historical'')
   \<and> \<not> (Type (df early_shaped ! 0) = ''Forecast'' \<and> Type (df early_shaped ! 1) = ''Historical'')"
proof -
  have h: "wd_hourly example_response
             = Some \<lparr>h_time = Some (map TimeStr [32400, 36000, 39600]),
                     h_temperature_2m = Some [JNum 42, JNum 45, JNum 48]\<rparr>"
    by (simp add: example_response_def)
  have t: "h_time \<lparr>h_time = Some (map TimeStr [32400, 36000, 39600]),
                   h_temperature_2m = Some [JNum 42, JNum 45, JNum 48]\<rparr>
             = Some (map TimeStr [32400, 36000, 39600])"
    by simp
  have s: "sorted [32400, 36000, 39600 :: int]" by simp
  have m: "\<forall>tz a b u v.
           example_timezone (case wd_timezone example_response of None \<Rightarrow> ''UTC'' | Some z \<Rightarrow> z) = Some tz
           \<and> a \<le> b \<and> tz a = Some u \<and> tz b = Some v \<longrightarrow> u \<le> v"
    by (auto simp: example_response_def example_timezone_def)
  from C6_monotonic [OF example_run h t s m] C6_monotonic [OF early_run h t s m]
  have "current_time example_shaped = 37800
        \<and> \<not> (Type (df example_shaped ! 1) = ''Forecast'' \<and> Type (df example_shaped ! 2) = ''Historical'')
        \<and> current_time early_shaped = 34200
        \<and> \<not> (Type (df early_shaped ! 0) = ''Forecast'' \<and> Type (df early_shaped ! 1) = ''Historical'')"
    by (simp add: example_shaped_def early_shaped_def)
  then show ?thesis using example_run early_run s
    by (simp add: example_shaped_def early_shaped_def)
qed

lemma current_temp_row_total: "d \<noteq> [] \<Longrightarrow> \<exists>r. current_temp_row d = Inr r"
  by (cases d) (simp_all add: current_temp_row_def Let_def)

lemma metrics_total:
  assumes "length ts = length temps" and "temps \<noteq> []"
  shows "\<exists>s. metrics fmt evs0 ts temps ct =
           (evs0 @ [St_metric ''Current Temp'' (metric_text fmt (current_temp s)),
                    St_metric ''Max Temp (Forecast)'' (metric_text fmt (max_temp s)),
                    St_metric ''Min Temp (Forecast)'' (metric_text fmt (min_temp s))], Shaped s)
         \<and> map time (df s) = ts \<and> map temperature_2m (df s) = temps \<and> current_time s = ct
         \<and> max_temp s = series_max temps \<and> min_temp s = series_min temps"
proof -
  from assms have "label_rows ct ts temps \<noteq> []"
    by (cases ts; cases temps) (simp_all add: label_rows_def)
  from current_temp_row_total[OF this] obtain r where
    "current_temp_row (label_rows ct ts temps) = Inr r" by blast
  with label_rows_columns[OF assms(1), of ct] show ?thesis
    by (simp add: metrics_def Let_def)
qed

lemma localize_except_plain:
  assumes "\<forall>c\<in>set tcells. c = TimeNull \<or> (\<exists>t. c = TimeStr t)"
  shows "localize_except now (Some tcells)
           = Inr (map (\<lambda>c. case c of TimeStr t \<Rightarrow> Some t | _ \<Rightarrow> None) tcells, now)"
  using to_datetime_plain[OF assms] tz_localize_UTC[OF assms]
  by (simp add: localize_except_def)

lemma shape_total:
  assumes "h_time h = Some tcells" and "\<forall>c\<in>set tcells. c = TimeNull \<or> (\<exists>t. c = TimeStr t)"
    and "h_temperature_2m h = Some cells" and "length tcells = length cells" and "cells \<noteq> []"
  shows "\<exists>evs s. shape fmt timezone now tzname h = (evs, Shaped s)
           \<and> map temperature_2m (df s) = map to_numeric cells
           \<and> max_temp s = series_max (map to_numeric cells)
           \<and> min_temp s = series_min (map to_numeric cells)"
proof -
  let ?z = "case tzname of None \<Rightarrow> ''UTC'' | Some z \<Rightarrow> z"
  let ?temps = "map to_numeric cells"
  let ?utc = "map (\<lambda>c. case c of TimeStr t \<Rightarrow> Some t | _ \<Rightarrow> None) tcells"
  have D: "DataFrame h = Inr ()" using assms by (simp add: DataFrame_def)
  have T: "?temps \<noteq> []" using assms(5) by simp
  have E: "localize_except now (h_time h) = Inr (?utc, now)"
    using localize_except_plain[OF assms(2)] assms(1) by simp
  have N: "length ?utc = length ?temps" using assms(4) by simp
  show ?thesis
  proof (cases "localize_try timezone now ?z (h_time h)")
    case (Inl e)
    from metrics_total[OF N T, of fmt "[St_warning timezone_message]" now] Inl E D assms(3)
    show ?thesis by (auto simp: shape_def Let_def)
  next
    case (Inr p)
    obtain ts ct where p: "p = (ts, ct)" by (cases p)
    from localize_try_Inr[of timezone now ?z "h_time h" ts ct] Inr p assms(1,4)
    have "length ts = length ?temps" by simp
    from metrics_total[OF this T, of fmt "[]" ct] Inr p D assms(3)
    show ?thesis by (auto simp: shape_def Let_def)
  qed
qed

lemma key_metrics_Unavailable:
  "snd (key_metrics fmt timezone now weather) = Unavailable \<longleftrightarrow>
      weather = None
    \<or> weather = Some (JNumber 0)
    \<or> weather = Some (JBool False)
    \<or> (\<exists>str. weather = Some (JString str) \<and> \<not> str_contains ''hourly'' str)
    \<or> (\<exists>xs. weather = Some (JArray xs) \<and> Some ''hourly'' \<notin> set xs)
    \<or> (\<exists>wd. weather = Some (JObject wd) \<and> wd_hourly wd = None)"
proof (cases weather)
  case None
  then show ?thesis by (simp add: key_metrics_def)
next
  case (Some b)
  show ?thesis
  proof (cases b)
    case (JObject wd)
    show ?thesis
    proof (cases "wd_hourly wd")
      case None
      with Some JObject show ?thesis by (simp add: key_metrics_def)
    next
      case (Some h)
      have "snd (shape fmt timezone now (wd_timezone wd) h) \<noteq> Unavailable"
        by (auto simp: shape_def Let_def metrics_def split: sum.splits option.splits prod.splits)
      with Some \<open>weather = Some b\<close> JObject show ?thesis by (simp add: key_metrics_def)
    qed
  qed (use Some in \<open>auto simp: key_metrics_def\<close>)
qed

lemma dropna_to_numeric: "set (dropna (map to_numeric cells)) = {x. JNum x \<in> set cells}"
proof (induction cells)
  case Nil
  then show ?case by simp
next
  case (Cons c cells)
  then show ?case by (cases c) (auto simp: to_numeric_def)
qed

text \<open>
  Claim C5 fails for a required field other than \<^verbatim>\<open>hourly\<close>: a response whose hourly
  object has no \<^verbatim>\<open>temperature_2m\<close> array ends in \<^verbatim>\<open>KeyError\<close>, not in the
  data-unavailable warning.
\<close>

theorem C5_missing_column_counterexample:
  "key_metrics example_fmt example_timezone 37800
     (Some (JObject \<lparr>wd_timezone = Some ''UTC'',
            wd_hourly = Some \<lparr>h_time = Some [TimeStr 32400, TimeStr 36000],
                              h_temperature_2m = None\<rparr>\<rparr>))
     = ([], Crashed (KeyError ''temperature_2m''))
   \<and> Crashed (KeyError ''temperature_2m'') \<noteq> Unavailable"
  by (simp add: key_metrics_def shape_def DataFrame_def)

text \<open>
  Claim C5, amended. The block ends in the data-unavailable warning exactly when the guard
  of line 135 is false: the fetched value is \<^verbatim>\<open>None\<close>, is zero or \<^verbatim>\<open>false\<close>, or is
  a string, an array or an object that does not contain \<^verbatim>\<open>"hourly"\<close> (the empty ones
  among them). A response object with both hourly arrays, of one length and not empty,
  whose time cells are timezone-naive timestamps or \<^verbatim>\<open>null\<close>, is shaped whatever its
  temperature cells are: a missing or unparseable temperature becomes not-a-number, and
  max and min are taken over the cells that are numbers.
\<close>

theorem C5_unavailable:
  "(snd (key_metrics fmt timezone now weather) = Unavailable \<longleftrightarrow>
      weather = None
    \<or> weather = Some (JNumber 0)
    \<or> weather = Some (JBool False)
    \<or> (\<exists>str. weather = Some (JString str) \<and> \<not> str_contains ''hourly'' str)
    \<or> (\<exists>xs. weather = Some (JArray xs) \<and> Some ''hourly'' \<notin> set xs)
    \<or> (\<exists>wd. weather = Some (JObject wd) \<and> wd_hourly wd = None))
   \<and> (snd (key_metrics fmt timezone now weather) = Unavailable \<longrightarrow>
        fst (key_metrics fmt timezone now weather) = [St_warning unavailable_message])
   \<and> (\<forall>wd h tcells cells.
        weather = Some (JObject wd) \<and> wd_hourly wd = Some h \<and> h_time h = Some tcells
        \<and> (\<forall>c\<in>set tcells. c = TimeNull \<or> (\<exists>t. c = TimeStr t))
        \<and> h_temperature_2m h = Some cells
        \<and> length tcells = length cells \<and> cells \<noteq> [] \<longrightarrow>
        (\<exists>evs s. key_metrics fmt timezone now weather = (evs, Shaped s)
           \<and> map temperature_2m (df s) = map to_numeric cells
           \<and> max_temp s = series_max (map to_numeric cells)
           \<and> min_temp s = series_min (map to_numeric cells)
           \<and> set (dropna (map to_numeric cells)) = {x. JNum x \<in> set cells}))"
proof -
  have "fst (key_metrics fmt timezone now weather) = [St_warning unavailable_message]"
    if "snd (key_metrics fmt timezone now weather) = Unavailable"
    using that unfolding key_metrics_Unavailable by (auto simp: key_metrics_def)
  moreover have "\<exists>evs s. key_metrics fmt timezone now weather = (evs, Shaped s)
           \<and> map temperature_2m (df s) = map to_numeric cells
           \<and> max_temp s = series_max (map to_numeric cells)
           \<and> min_temp s = series_min (map to_numeric cells)
           \<and> set (dropna (map to_numeric cells)) = {x. JNum x \<in> set cells}"
    if "weather = Some (JObject wd)" "wd_hourly wd = Some h" "h_time h = Some tcells"
       "\<forall>c\<in>set tcells. c = TimeNull \<or> (\<exists>t. c = TimeStr t)" "h_temperature_2m h = Some cells"
       "length tcells = length cells" "cells \<noteq> []"
    for wd h tcells cells
    using shape_total[OF that(3-7), of fmt timezone now "wd_timezone wd"] that(1,2)
      dropna_to_numeric[of cells]
    by (auto simp: key_metrics_def)
  ultimately show ?thesis using key_metrics_Unavailable[of fmt timezone now weather]
    by blast
qed

text \<open>
  Claim C5 (amended) at the absent response, at a string without \<^verbatim>\<open>"hourly"\<close>, and
  at the response with the readings 50 and \<^verbatim>\<open>null\<close>.
\<close>

theorem C5_unavailable_witness:
  "snd (key_metrics example_fmt example_timezone 37800 None) = Unavailable
   \<and> fst (key_metrics example_fmt example_timezone 37800 None) = [St_warning unavailable_message]
   \<and> \<not> str_contains ''hourly'' ''error''
   \<and> snd (key_metrics example_fmt example_timezone 37800 (Some (JString ''error''))) = Unavailable
   \<and> (\<exists>evs s. key_metrics example_fmt example_timezone 37800 (Some (JObject gap_response)) = (evs, Shaped s)
         \<and> map temperature_2m (df s) = [Num 50, NaN]
         \<and> max_temp s = Num 50)"
proof -
  note t = C5_unavailable [of example_fmt example_timezone 37800]
  have a: "snd (key_metrics example_fmt example_timezone 37800 None) = Unavailable"
    using t [of None] by simp
  have b: "fst (key_metrics example_fmt example_timezone 37800 None) = [St_warning unavailable_message]"
    using t [of None] a by simp
  have n: "\<not> str_contains ''hourly'' ''error''" by simp
  have d: "snd (key_metrics example_fmt example_timezone 37800 (Some (JString ''error''))) = Unavailable"
    using t [of "Some (JString ''error'')"] n by simp
  have "\<exists>evs s. key_metrics example_fmt example_timezone 37800 (Some (JObject gap_response)) = (evs, Shaped s)
           \<and> map temperature_2m (df s) = map to_numeric [JNum 50, JNull]
           \<and> max_temp s = series_max (map to_numeric [JNum 50, JNull])
           \<and> min_temp s = series_min (map to_numeric [JNum 50, JNull])
           \<and> set (dropna (map to_numeric [JNum 50, JNull])) = {x. JNum x \<in> set [JNum 50, JNull]}"
    using t [of "Some (JObject gap_response)"]
    by (simp add: gap_response_def)
  then have c: "\<exists>evs s. key_metrics example_fmt example_timezone 37800 (Some (JObject gap_response)) = (evs, Shaped s)
         \<and> map temperature_2m (df s) = [Num 50, NaN] \<and> max_temp s = Num 50"
    by (auto simp: to_numeric_def series_max_def)
  from a b c d n show ?thesis by blast
qed

text \<open>
  Claim C9 fails for a response without samples: with an unknown timezone and empty hourly
  arrays, the warning is drawn and the block then ends in \<^verbatim>\<open>IndexError\<close>.
\<close>

theorem C9_empty_series_counterexample:
  "example_timezone ''Mars/Olympus'' = None
   \<and> key_metrics example_fmt example_timezone 37800
       (Some (JObject \<lparr>wd_timezone = Some ''Mars/Olympus'',
              wd_hourly = Some \<lparr>h_time = Some [], h_temperature_2m = Some []\<rparr>\<rparr>))
       = ([St_warning timezone_message], Crashed IndexError)"
  by (simp add: run_defs example_timezone_def)

text \<open>
  Claim C9, amended. For a response object with at least one sample (both hourly arrays, of
  one length, every time cell a timezone-naive timestamp or \<^verbatim>\<open>null\<close>) whose timezone
  name is unknown, the fallback warning is drawn, each wall-clock time is read as the UTC
  instant, the boundary is the clock's instant, every sample is labelled against it, and
  the whole series and the three metrics are produced.
\<close>

theorem C9_timezone_fallback:
  assumes "timezone (case wd_timezone wd of None \<Rightarrow> ''UTC'' | Some z \<Rightarrow> z) = None"
    and "wd_hourly wd = Some h" and "h_time h = Some tcells"
    and "\<forall>c\<in>set tcells. c = TimeNull \<or> (\<exists>t. c = TimeStr t)"
    and "h_temperature_2m h = Some cells" and "length tcells = length cells" and "cells \<noteq> []"
  shows "\<exists>s. key_metrics fmt timezone now (Some (JObject wd)) =
           ([St_warning timezone_message,
             St_metric ''Current Temp'' (metric_text fmt (current_temp s)),
             St_metric ''Max Temp (Forecast)'' (metric_text fmt (max_temp s)),
             St_metric ''Min Temp (Forecast)'' (metric_text fmt (min_temp s))], Shaped s)
         \<and> map time (df s) = map (\<lambda>c. case c of TimeStr t \<Rightarrow> Some t | _ \<Rightarrow> None) tcells
         \<and> map temperature_2m (df s) = map to_numeric cells
         \<and> current_time s = now
         \<and> (\<forall>r\<in>set (df s). Type r =
               (case time r of None \<Rightarrow> ''Historical''
                | Some t \<Rightarrow> if t > now then ''Forecast'' else ''Historical''))
         \<and> max_temp s = series_max (map to_numeric cells)
         \<and> min_temp s = series_min (map to_numeric cells)"
proof -
  let ?temps = "map to_numeric cells"
  let ?utc = "map (\<lambda>c. case c of TimeStr t \<Rightarrow> Some t | _ \<Rightarrow> None) tcells"
  have D: "DataFrame h = Inr ()" using assms by (simp add: DataFrame_def)
  have T: "?temps \<noteq> []" using assms(7) by simp
  have L: "localize_try timezone now (case wd_timezone wd of None \<Rightarrow> ''UTC'' | Some z \<Rightarrow> z) (h_time h)
             = Inl UnknownTimeZoneError"
    using assms(1) by (simp add: localize_try_def)
  have E: "localize_except now (h_time h) = Inr (?utc, now)"
    using localize_except_plain[OF assms(4)] assms(3) by simp
  have N: "length ?utc = length ?temps" using assms(6) by simp
  from metrics_total[OF N T, of fmt "[St_warning timezone_message]" now] obtain s where
    s: "metrics fmt [St_warning timezone_message] ?utc ?temps now =
           ([St_warning timezone_message] @
            [St_metric ''Current Temp'' (metric_text fmt (current_temp s)),
             St_metric ''Max Temp (Forecast)'' (metric_text fmt (max_temp s)),
             St_metric ''Min Temp (Forecast)'' (metric_text fmt (min_temp s))], Shaped s)"
    and c: "map time (df s) = ?utc" "map temperature_2m (df s) = ?temps" "current_time s = now"
      "max_temp s = series_max ?temps" "min_temp s = series_min ?temps"
    by blast
  from metrics_Shaped(1)[OF s] have "\<forall>r\<in>set (df s). Type r = Type_of now (time r)"
    by (auto dest: Type_label_rows)
  then have "\<forall>r\<in>set (df s). Type r =
               (case time r of None \<Rightarrow> ''Historical''
                | Some t \<Rightarrow> if t > now then ''Forecast'' else ''Historical'')"
    by (auto simp: Type_of_def stamp_gt_def split: option.splits)
  moreover have "key_metrics fmt timezone now (Some (JObject wd)) =
      metrics fmt [St_warning timezone_message] ?utc ?temps now"
    using D L E assms(2,5) by (simp add: key_metrics_def shape_def Let_def)
  ultimately show ?thesis using s c by auto
qed

text \<open>
  Claim C9 (amended) at the series of 09:00, 10:00 and 11:00 with an unknown timezone name.
\<close>

theorem C9_timezone_fallback_witness:
  "example_timezone ''Mars/Olympus'' = None
   \<and> (\<exists>s. key_metrics example_fmt example_timezone 37800 (Some (JObject badtz_response)) =
           ([St_warning timezone_message,
             St_metric ''Current Temp'' (metric_text example_fmt (current_temp s)),
             St_metric ''Max Temp (Forecast)'' (metric_text example_fmt (max_temp s)),
             St_metric ''Min Temp (Forecast)'' (metric_text example_fmt (min_temp s))], Shaped s)
         \<and> map time (df s) = [Some 32400, Some 36000, Some 39600]
         \<and> map temperature_2m (df s) = [Num 42, Num 45, Num 48]
         \<and> current_time s = 37800)"
proof -
  have z: "example_timezone (case wd_timezone badtz_response of None \<Rightarrow> ''UTC'' | Some z \<Rightarrow> z) = None"
    by (simp add: badtz_response_def example_timezone_def)
  have h: "wd_hourly badtz_response
             = Some \<lparr>h_time = Some [TimeStr 32400, TimeStr 36000, TimeStr 39600],
                     h_temperature_2m = Some [JNum 42, JNum 45, JNum 48]\<rparr>"
    by (simp add: badtz_response_def example_response_def)
  have "\<exists>s. key_metrics example_fmt example_timezone 37800 (Some (JObject badtz_response)) =
           ([St_warning timezone_message,
             St_metric ''Current Temp'' (metric_text example_fmt (current_temp s)),
             St_metric ''Max Temp (Forecast)'' (metric_text example_fmt (max_temp s)),
             St_metric ''Min Temp (Forecast)'' (metric_text example_fmt (min_temp s))], Shaped s)
         \<and> map time (df s) = map (\<lambda>c. case c of TimeStr t \<Rightarrow> Some t | _ \<Rightarrow> None)
                                  [TimeStr 32400, TimeStr 36000, TimeStr 39600]
         \<and> map temperature_2m (df s) = map to_numeric [JNum 42, JNum 45, JNum 48]
         \<and> current_time s = 37800
         \<and> (\<forall>r\<in>set (df s). Type r =
               (case time r of None \<Rightarrow> ''Historical''
                | Some t \<Rightarrow> if t > 37800 then ''Forecast'' else ''Historical''))
         \<and> max_temp s = series_max (map to_numeric [JNum 42, JNum 45, JNum 48])
         \<and> min_temp s = series_min (map to_numeric [JNum 42, JNum 45, JNum 48])"
    by (rule C9_timezone_fallback
          [where timezone = example_timezone and wd = badtz_response
             and h = "\<lparr>h_time = Some [TimeStr 32400, TimeStr 36000, TimeStr 39600],
                       h_temperature_2m = Some [JNum 42, JNum 45, JNum 48]\<rparr>"
             and tcells = "[TimeStr 32400, TimeStr 36000, TimeStr 39600]"
             and cells = "[JNum 42, JNum 45, JNum 48]"])
       (simp_all add: z h)
  then show ?thesis by (auto simp: example_timezone_def to_numeric_def)
qed

text \<open>
  Other kinds of input. Time cells that carry a UTC offset parse to timezone-aware times:
  line 143 raises, the warning is drawn, and line 147 raises again, uncaught.
\<close>

lemma offset_run:
  "key_metrics example_fmt example_timezone 37800
     (Some (JObject \<lparr>wd_timezone = Some ''Mars/Olympus'',
            wd_hourly = Some \<lparr>h_time = Some [TimeOffset 32400, TimeOffset 36000],
                              h_temperature_2m = Some [JNum 42, JNum 45]\<rparr>\<rparr>))
     = ([St_warning timezone_message], Crashed TypeError)"
  by (simp add: run_defs example_timezone_def)

text \<open>
  A \<^verbatim>\<open>null\<close> time cell becomes not-a-time; its comparison with the boundary is false,
  so the row is labelled Historical.
\<close>

lemma null_time_run:
  "snd (key_metrics example_fmt example_timezone 37800
     (Some (JObject \<lparr>wd_timezone = Some ''UTC'',
            wd_hourly = Some \<lparr>h_time = Some [TimeNull, TimeStr 39600],
                              h_temperature_2m = Some [JNum 42, JNum 45]\<rparr>\<rparr>)))
     = Shaped \<lparr>df = [\<lparr>time = None, temperature_2m = Num 42, Type = ''Historical''\<rparr>,
                     \<lparr>time = Some 39600, temperature_2m = Num 45, Type = ''Forecast''\<rparr>],
               current_time = 37800, current_temp = Num 42, max_temp = Num 45, min_temp = Num 42\<rparr>"
  by (simp add: run_defs example_timezone_def)

text \<open>
  A response that is not an object: the guard of line 135 raises on a number and on
  \<^verbatim>\<open>true\<close>; a string or an array that holds \<^verbatim>\<open>"hourly"\<close> passes the guard and
  line 136 raises; an empty array is falsy.
\<close>

lemma scalar_body_runs:
  "key_metrics fmt timezone now (Some (JNumber 5)) = ([], Crashed TypeError)"
  "key_metrics fmt timezone now (Some (JBool True)) = ([], Crashed TypeError)"
  "key_metrics fmt timezone now (Some (JString ''no hourly data'')) = ([], Crashed TypeError)"
  "key_metrics fmt timezone now (Some (JArray [None, Some ''hourly''])) = ([], Crashed TypeError)"
  "key_metrics fmt timezone now (Some (JArray [])) = ([St_warning unavailable_message], Unavailable)"
  by (simp_all add: key_metrics_def)

end
